theory Spec2Isabelle
  imports Main
begin

section \<open>Values, objects and the module state\<close>

text \<open>
  The development follows the no-framework variant of the dependency-injection examples
  (\<^verbatim>\<open>diy-roll-your-own/factory-inside-class.ts\<close> with \<^verbatim>\<open>common.ts\<close>): three
  memoized resolvers, \<^verbatim>\<open>dependencies.getDb\<close>, \<^verbatim>\<open>Repository.getInstance\<close> and
  \<^verbatim>\<open>Service.getInstance\<close>, that build the graph Service, Repository, Database on
  first use.

  JavaScript values are \<open>jsval\<close>. A row of a query result, typed
  \<^verbatim>\<open>{[columnName: string]: any}\<close>, is a list of column names with their values and is
  compared by its contents (as \<^verbatim>\<open>toEqual\<close> does); class instances and database objects
  live in a heap and are compared by reference (as \<^verbatim>\<open>toBe\<close> does): \<open>Ref a\<close> is the
  object allocated as number \<open>a\<close>.
\<close>

datatype jsval =
    Undefined
  | Num int
  | Str string
  | Rec "(string \<times> jsval) list"
  | Ref nat

type_synonym row = "(string \<times> jsval) list"

text \<open>
  Exceptions are values. \<open>TypeError\<close> is a method call on something that has no such
  method, \<open>RangeError\<close> is the engine's "Maximum call stack size exceeded", \<open>Thrown v\<close>
  is \<^verbatim>\<open>throw v\<close> in user code. \<open>CircularDependency\<close> is the error the specification
  names for a dependency cycle; it is here so that the results of the code can be compared
  with it.
\<close>

datatype exn =
    TypeError
  | RangeError
  | CircularDependency "string list"
  | Thrown jsval

type_synonym 'a result = "exn + 'a"

fun is_CircularDependency :: "jsval result \<Rightarrow> bool" where
  "is_CircularDependency (Inl (CircularDependency cycle)) = True"
| "is_CircularDependency r = False"

text \<open>
  The objects of the program: a \<^verbatim>\<open>Database\<close> (an object with a \<^verbatim>\<open>query\<close> method,
  which in every database of the repository computes its rows from the query string alone),
  a \<^verbatim>\<open>Repository\<close> with its private field \<^verbatim>\<open>db\<close>, a \<^verbatim>\<open>Service\<close> with its private
  field \<^verbatim>\<open>repository\<close>.
\<close>

datatype obj =
    DatabaseObj "string \<Rightarrow> row list"
  | RepositoryObj jsval
  | ServiceObj jsval

text \<open>
  What the property \<^verbatim>\<open>dependencies.getDb\<close> holds: the memoized resolver the module
  installs, or the arrow function \<^verbatim>\<open>() => ({ query: q })\<close> that the mocking test assigns
  to it.
\<close>

datatype resolver =
    Memoized
  | Stub "string \<Rightarrow> row list"

text \<open>
  The state of the module: the heap (an object's reference is its position), the variable
  \<^verbatim>\<open>cached\<close> of every closure that \<^verbatim>\<open>memoize\<close> has returned (numbered in the order of
  creation, \<open>closures\<close> counting them), and the property \<^verbatim>\<open>dependencies.getDb\<close>.
\<close>

record state =
  heap :: "obj list"
  cached :: "nat \<Rightarrow> jsval"
  closures :: nat
  getDb :: resolver

type_synonym thunk = "state \<Rightarrow> jsval result \<times> state"

definition alloc :: "obj \<Rightarrow> thunk" where
  "alloc ob s = (Inr (Ref (length (heap s))), s\<lparr>heap := heap s @ [ob]\<rparr>)"

definition deref :: "state \<Rightarrow> jsval \<Rightarrow> obj option" where
  "deref s v =
     (case v of
        Ref a \<Rightarrow> (if a < length (heap s) then Some (heap s ! a) else None)
      | _ \<Rightarrow> None)"

section \<open>common.ts\<close>

text \<open>
  \<^verbatim>\<open>getPlaceholderForRealDB\<close> returns a new object whose \<^verbatim>\<open>query\<close> answers every query
  string with the one row \<^verbatim>\<open>{id: 1, name: 'test'}\<close>.
\<close>

definition placeholder_query :: "string \<Rightarrow> row list" where
  "placeholder_query queryString = [[(''id'', Num 1), (''name'', Str ''test'')]]"

definition getPlaceholderForRealDB :: thunk where
  "getPlaceholderForRealDB = alloc (DatabaseObj placeholder_query)"

text \<open>
  \<^verbatim>\<open>memoize(factory)\<close> declares \<^verbatim>\<open>let cached\<close>, which starts undefined, and returns
  the closure
  \<^verbatim>\<open>() => { if (cached === undefined) cached = factory(); return cached }\<close>.
  \<open>memoized c factory\<close> is that closure, for the variable number \<open>c\<close>: an exception of the
  factory leaves the assignment undone. \<open>memoize\<close> is the call that creates it.
  (\<^verbatim>\<open>factory-inside-class.ts\<close> names lodash's \<^verbatim>\<open>memoize\<close> in its import; this
  implementation of the repository, written to stand in for it, is the one the resolvers
  are modelled with.)
\<close>

definition memoized :: "nat \<Rightarrow> thunk \<Rightarrow> thunk" where
  "memoized c factory s =
     (if cached s c = Undefined then
        (case factory s of
           (Inl e, s') \<Rightarrow> (Inl e, s')
         | (Inr v, s') \<Rightarrow> (Inr v, s'\<lparr>cached := (cached s')(c := v)\<rparr>))
      else (Inr (cached s c), s))"

definition memoize :: "thunk \<Rightarrow> state \<Rightarrow> thunk \<times> state" where
  "memoize factory s =
     (memoized (closures s) factory,
      s\<lparr>cached := (cached s)(closures s := Undefined), closures := Suc (closures s)\<rparr>)"

section \<open>factory-inside-class.ts\<close>

text \<open>
  The three closures are created when the module is loaded, in the order of the file, so
  their variables are number 0 (\<^verbatim>\<open>dependencies.getDb\<close>), 1
  (\<^verbatim>\<open>Repository.getInstance\<close>) and 2 (\<^verbatim>\<open>Service.getInstance\<close>). A constructor called
  without argument evaluates its parameter's default, which resolves the dependency; the
  object is entered in the heap once its field is known.
\<close>

definition getDb_memoized :: thunk where
  "getDb_memoized = memoized 0 getPlaceholderForRealDB"

definition dependencies_getDb :: thunk where
  "dependencies_getDb s =
     (case getDb s of
        Memoized \<Rightarrow> getDb_memoized s
      | Stub q \<Rightarrow> alloc (DatabaseObj q) s)"

definition new_Repository :: thunk where
  "new_Repository s =
     (case dependencies_getDb s of
        (Inl e, s') \<Rightarrow> (Inl e, s')
      | (Inr db, s') \<Rightarrow> alloc (RepositoryObj db) s')"

definition Repository_getInstance :: thunk where
  "Repository_getInstance = memoized 1 new_Repository"

definition new_Service :: thunk where
  "new_Service s =
     (case Repository_getInstance s of
        (Inl e, s') \<Rightarrow> (Inl e, s')
      | (Inr repository, s') \<Rightarrow> alloc (ServiceObj repository) s')"

definition Service_getInstance :: thunk where
  "Service_getInstance = memoized 2 new_Service"

text \<open>The state after the module has been loaded: three closures, no object.\<close>

definition empty_state :: state where
  "empty_state = \<lparr>heap = [], cached = (\<lambda>c. Undefined), closures = 0, getDb = Memoized\<rparr>"

definition module_load :: state where
  "module_load =
     (let (getDb_closure, s1) = memoize getPlaceholderForRealDB empty_state;
          (Repository_closure, s2) = memoize new_Repository s1;
          (Service_closure, s3) = memoize new_Service s2
      in s3)"

text \<open>
  The template string \<^verbatim>\<open>SELECT * FROM tableA WHERE id = ${id}}\<close> (the second closing
  brace is part of the text), for an integer \<open>id'\<close> (\<open>id\<close> in the source).
\<close>

fun digits :: "nat \<Rightarrow> string" where
  "digits n =
     (if n < 10 then [''0123456789'' ! n]
      else digits (n div 10) @ [''0123456789'' ! (n mod 10)])"

declare digits.simps [simp del]

definition number_text :: "int \<Rightarrow> string" where
  "number_text i = (if i < 0 then ''-'' @ digits (nat (- i)) else digits (nat i))"

definition select_by_id :: "int \<Rightarrow> string" where
  "select_by_id id' = ''SELECT * FROM tableA WHERE id = '' @ number_text id' @ ''}''"

text \<open>
  Reading element 0 of an array never fails in JavaScript: an empty array gives
  \<^verbatim>\<open>undefined\<close>.
\<close>

definition first_row :: "row list \<Rightarrow> jsval" where
  "first_row rows = (case rows of [] \<Rightarrow> Undefined | r # rest \<Rightarrow> Rec r)"

definition Repository_get :: "state \<Rightarrow> jsval \<Rightarrow> int \<Rightarrow> jsval result" where
  "Repository_get s this id' =
     (case deref s this of
        Some (RepositoryObj db) \<Rightarrow>
          (case deref s db of
             Some (DatabaseObj q) \<Rightarrow> Inr (first_row (q (select_by_id id')))
           | _ \<Rightarrow> Inl TypeError)
      | _ \<Rightarrow> Inl TypeError)"

definition Service_get :: "state \<Rightarrow> jsval \<Rightarrow> int \<Rightarrow> jsval result" where
  "Service_get s this id' =
     (case deref s this of
        Some (ServiceObj repository) \<Rightarrow> Repository_get s repository id'
      | _ \<Rightarrow> Inl TypeError)"

text \<open>
  \<^verbatim>\<open>Service.getInstance().get(id)\<close>: resolve, then call the method on the instance.
\<close>

definition Service_getInstance_get :: "int \<Rightarrow> state \<Rightarrow> jsval result \<times> state" where
  "Service_getInstance_get id' s =
     (case Service_getInstance s of
        (Inl e, s') \<Rightarrow> (Inl e, s')
      | (Inr serviceInstance, s') \<Rightarrow> (Service_get s' serviceInstance id', s'))"

section \<open>Tokens, overrides and repeated resolution\<close>

text \<open>
  The three dependencies, each with the call that resolves it and the number of the
  variable \<^verbatim>\<open>cached\<close> behind it. \<^verbatim>\<open>dependencies.getDb()\<close> goes through the property, so
  it is the memoized resolver only as long as the property has not been reassigned:
  \<open>singleton_lifecycle s t\<close> says that \<open>t\<close> is bound to a memoized resolver in \<open>s\<close>.
\<close>

datatype token = Database | Repository | Service

fun resolve :: "token \<Rightarrow> thunk" where
  "resolve Database = dependencies_getDb"
| "resolve Repository = Repository_getInstance"
| "resolve Service = Service_getInstance"

fun cell :: "token \<Rightarrow> nat" where
  "cell Database = 0"
| "cell Repository = 1"
| "cell Service = 2"

fun singleton_lifecycle :: "state \<Rightarrow> token \<Rightarrow> bool" where
  "singleton_lifecycle s Database = (getDb s = Memoized)"
| "singleton_lifecycle s t = True"

text \<open>
  A sequence of resolutions, one call site after the other, with the results in order.
\<close>

fun resolve_all :: "token list \<Rightarrow> state \<Rightarrow> jsval result list \<times> state" where
  "resolve_all [] s = ([], s)"
| "resolve_all (t # ts) s =
     (case resolve t s of (r, s') \<Rightarrow>
        (case resolve_all ts s' of (rs, s'') \<Rightarrow> (r # rs, s'')))"

text \<open>The number of objects of a token's class that have been constructed.\<close>

fun instance_of :: "token \<Rightarrow> obj \<Rightarrow> bool" where
  "instance_of Database (DatabaseObj q) = True"
| "instance_of Repository (RepositoryObj db) = True"
| "instance_of Service (ServiceObj repository) = True"
| "instance_of t ob = False"

definition instances :: "token \<Rightarrow> state \<Rightarrow> nat" where
  "instances t s = length (filter (instance_of t) (heap s))"

text \<open>
  The override of the mocking test is the assignment
  \<^verbatim>\<open>dependencies.getDb = () => ({ query: q })\<close>; \<open>restore_getDb\<close> puts the memoized
  resolver back (the closure itself was never touched). \<open>mocked_query\<close> is the test's
  stub, \<open>empty_query\<close> a database without rows.
\<close>

definition override_getDb :: "(string \<Rightarrow> row list) \<Rightarrow> state \<Rightarrow> state" where
  "override_getDb q s = s\<lparr>getDb := Stub q\<rparr>"

definition restore_getDb :: "state \<Rightarrow> state" where
  "restore_getDb s = s\<lparr>getDb := Memoized\<rparr>"

definition mocked_query :: "string \<Rightarrow> row list" where
  "mocked_query queryString = [[(''id'', Num 2), (''name'', Str ''mocked'')]]"

definition empty_query :: "string \<Rightarrow> row list" where
  "empty_query queryString = []"

text \<open>\<open>calls n f\<close> calls a resolver \<open>n\<close> times in a row.\<close>

fun calls :: "nat \<Rightarrow> thunk \<Rightarrow> state \<Rightarrow> jsval result list \<times> state" where
  "calls 0 f s = ([], s)"
| "calls (Suc n) f s =
     (case f s of (r, s') \<Rightarrow>
        (case calls n f s' of (rs, s'') \<Rightarrow> (r # rs, s'')))"

text \<open>
  Two factories for the examples: one that returns \<^verbatim>\<open>undefined\<close> after constructing an
  object, and one that throws as long as the heap is empty (leaving an object behind) and
  returns that object afterwards.
\<close>

definition undefined_factory :: thunk where
  "undefined_factory s = (Inr Undefined, s\<lparr>heap := heap s @ [ServiceObj Undefined]\<rparr>)"

definition flaky_factory :: thunk where
  "flaky_factory s =
     (if heap s = [] then
        (Inl (Thrown (Str ''not ready'')), s\<lparr>heap := [DatabaseObj placeholder_query]\<rparr>)
      else (Inr (Ref 0), s))"

section \<open>A cyclic pair of registrations\<close>

text \<open>
  The repository registers no cycle. To see what its resolvers do with one, take two classes
  written like \<^verbatim>\<open>Repository\<close> and \<^verbatim>\<open>Service\<close>, each with
  \<^verbatim>\<open>static readonly getInstance = memoize(() => new X())\<close> and a constructor whose
  parameter defaults to the other class's \<^verbatim>\<open>getInstance()\<close>. \<open>x\<close> tells the two classes
  apart, \<open>cx\<close> and \<open>cy\<close> are the variables of their closures, \<open>build x dep\<close> is the object
  the constructor of class \<open>x\<close> makes from its dependency. Nothing in these two functions
  ends the recursion, so the model carries the engine's limit: \<open>depth\<close> is the number of
  nested calls still allowed before \<^verbatim>\<open>RangeError\<close> is thrown.
\<close>

fun cyclic_getInstance ::
  "(bool \<Rightarrow> jsval \<Rightarrow> obj) \<Rightarrow> nat \<Rightarrow> nat \<Rightarrow> nat \<Rightarrow> bool \<Rightarrow> thunk"
and cyclic_new ::
  "(bool \<Rightarrow> jsval \<Rightarrow> obj) \<Rightarrow> nat \<Rightarrow> nat \<Rightarrow> nat \<Rightarrow> bool \<Rightarrow> thunk" where
  "cyclic_getInstance build cx cy 0 x s = (Inl RangeError, s)"
| "cyclic_getInstance build cx cy (Suc depth) x s =
     memoized (if x then cx else cy) (\<lambda>s'. cyclic_new build cx cy depth x s') s"
| "cyclic_new build cx cy 0 x s = (Inl RangeError, s)"
| "cyclic_new build cx cy (Suc depth) x s =
     (case cyclic_getInstance build cx cy depth (\<not> x) s of
        (Inl e, s') \<Rightarrow> (Inl e, s')
      | (Inr dep, s') \<Rightarrow> alloc (build x dep) s')"

definition build_pair :: "bool \<Rightarrow> jsval \<Rightarrow> obj" where
  "build_pair x dep = (if x then ServiceObj dep else RepositoryObj dep)"

text \<open>The state after loading a module that declares such a pair and nothing else.\<close>

definition pair_load :: "nat \<Rightarrow> state" where
  "pair_load depth =
     (let (x_getInstance, s1) = memoize (cyclic_new build_pair 0 1 depth True) empty_state;
          (y_getInstance, s2) = memoize (cyclic_new build_pair 0 1 depth False) s1
      in s2)"

text \<open>
  The state of the \<^verbatim>\<open>Service\<close> resolved over a database that has no rows.
\<close>

definition empty_db_state :: state where
  "empty_db_state = snd (resolve Service (override_getDb empty_query module_load))"

text \<open>
  The module state after one more call of \<^verbatim>\<open>memoize\<close>, for each of the two example
  factories: their closure's variable is number 3.
\<close>

definition undefined_load :: state where
  "undefined_load = snd (memoize undefined_factory module_load)"

definition flaky_load :: state where
  "flaky_load = snd (memoize flaky_factory module_load)"

section \<open>Counting the runs of a factory\<close>

text \<open>
  To count how often a factory runs, a factory is taken together with the number of runs
  of itself that it has caused while running, by resolving its own token: a \<open>counted\<close>
  factory returns that number beside its result. \<open>plain f\<close> is a factory whose body does
  not call its own resolver. \<open>memoized_runs c factory\<close> is the closure of \<^verbatim>\<open>memoize\<close>
  once more, returning beside its result the number of runs of the factory during the
  call: one for its own \<^verbatim>\<open>factory()\<close>, added to those the factory reports, and none when
  \<^verbatim>\<open>cached\<close> holds a value. \<open>runs n c factory s\<close> adds them up over \<open>n\<close> successive
  calls.
\<close>

type_synonym counted = "state \<Rightarrow> (jsval result \<times> state) \<times> nat"

definition plain :: "thunk \<Rightarrow> counted" where
  "plain f s = (f s, 0)"

definition memoized_runs :: "nat \<Rightarrow> counted \<Rightarrow> counted" where
  "memoized_runs c factory s =
     (if cached s c = Undefined then
        (case factory s of
           ((Inl e, s'), k) \<Rightarrow> ((Inl e, s'), Suc k)
         | ((Inr v, s'), k) \<Rightarrow> ((Inr v, s'\<lparr>cached := (cached s')(c := v)\<rparr>), Suc k))
      else ((Inr (cached s c), s), 0))"

fun runs :: "nat \<Rightarrow> nat \<Rightarrow> counted \<Rightarrow> state \<Rightarrow> nat" where
  "runs 0 c factory s = 0"
| "runs (Suc n) c factory s =
     (case memoized_runs c factory s of ((r, s'), k) \<Rightarrow> k + runs n c factory s')"

text \<open>
  A factory that resolves its own token:
  \<^verbatim>\<open>const getInstance = memoize(() => { const first = (no object exists yet);
  const made = new Thing(); if (first) { getInstance(); if (throws) throw 'boom' }
  return made })\<close>.
  The first run calls the resolver again while \<^verbatim>\<open>cached\<close> is still undefined, so the
  factory runs a second time inside the first. \<open>c\<close> is the variable of the closure and
  \<open>depth\<close> the number of nested calls the engine still allows.
\<close>

fun reentrant_getInstance :: "bool \<Rightarrow> nat \<Rightarrow> nat \<Rightarrow> counted"
and reentrant_factory :: "bool \<Rightarrow> nat \<Rightarrow> nat \<Rightarrow> counted" where
  "reentrant_getInstance throws c 0 s = ((Inl RangeError, s), 0)"
| "reentrant_getInstance throws c (Suc depth) s =
     memoized_runs c (\<lambda>s'. reentrant_factory throws c depth s') s"
| "reentrant_factory throws c 0 s = ((Inl RangeError, s), 0)"
| "reentrant_factory throws c (Suc depth) s =
     (if heap s = [] then
        (case alloc (ServiceObj Undefined) s of
           (made, s1) \<Rightarrow>
             (case reentrant_getInstance throws c depth s1 of
                ((Inl e, s2), k) \<Rightarrow> ((Inl e, s2), k)
              | ((Inr nested, s2), k) \<Rightarrow>
                  ((if throws then Inl (Thrown (Str ''boom'')) else made, s2), k)))
      else (alloc (ServiceObj Undefined) s, 0))"

text \<open>The module state after one more call of \<^verbatim>\<open>memoize\<close>, with such a factory.\<close>

definition reentrant_load :: "bool \<Rightarrow> nat \<Rightarrow> state" where
  "reentrant_load throws depth =
     snd (memoize (\<lambda>s. fst (reentrant_factory throws 3 depth s)) module_load)"

section \<open>The properties that hold the resolvers\<close>

text \<open>
  \<^verbatim>\<open>Repository.getInstance\<close> and \<^verbatim>\<open>Service.getInstance\<close> are properties of their
  classes, read at every call, and the tests reassign them as they reassign
  \<^verbatim>\<open>dependencies.getDb\<close>: \<^verbatim>\<open>mockInstance\<close> does
  \<^verbatim>\<open>singleton.getInstance = () => thisMock\<close>. A property holds the closure installed when
  the module was loaded, or a function that returns the test's mock. The default of the
  \<^verbatim>\<open>Service\<close> constructor's parameter calls whatever \<^verbatim>\<open>Repository.getInstance\<close> holds
  at that moment. With both properties as installed these are the resolvers of the
  sections above (\<open>resolve_with_installed\<close> below). The one scope of the module is its
  properties together with its state.
\<close>

datatype binding = Installed | Returns jsval

record properties =
  Repository_property :: binding
  Service_property :: binding

definition installed :: properties where
  "installed = \<lparr>Repository_property = Installed, Service_property = Installed\<rparr>"

type_synonym scope = "properties \<times> state"

definition call_Repository_getInstance :: "properties \<Rightarrow> thunk" where
  "call_Repository_getInstance p s =
     (case Repository_property p of
        Installed \<Rightarrow> Repository_getInstance s
      | Returns thisMock \<Rightarrow> (Inr thisMock, s))"

definition new_Service_with :: "properties \<Rightarrow> thunk" where
  "new_Service_with p s =
     (case call_Repository_getInstance p s of
        (Inl e, s') \<Rightarrow> (Inl e, s')
      | (Inr repository, s') \<Rightarrow> alloc (ServiceObj repository) s')"

definition call_Service_getInstance :: "properties \<Rightarrow> thunk" where
  "call_Service_getInstance p s =
     (case Service_property p of
        Installed \<Rightarrow> memoized 2 (new_Service_with p) s
      | Returns thisMock \<Rightarrow> (Inr thisMock, s))"

fun resolve_with :: "properties \<Rightarrow> token \<Rightarrow> thunk" where
  "resolve_with p Database = dependencies_getDb"
| "resolve_with p Repository = call_Repository_getInstance p"
| "resolve_with p Service = call_Service_getInstance p"

definition resolve_in :: "token \<Rightarrow> scope \<Rightarrow> jsval result \<times> scope" where
  "resolve_in t sc =
     (case resolve_with (fst sc) t (snd sc) of (r, s') \<Rightarrow> (r, (fst sc, s')))"

fun installed_for :: "scope \<Rightarrow> token \<Rightarrow> bool" where
  "installed_for (p, s) Database = (getDb s = Memoized)"
| "installed_for (p, s) Repository = (Repository_property p = Installed)"
| "installed_for (p, s) Service = (Service_property p = Installed)"

text \<open>
  The override of a token as the tests do it: a stub with the query \<open>q\<close> for the database,
  the mock \<open>thisMock\<close> for a class. \<open>restore\<close> puts the installed resolver back.
\<close>

fun test_override :: "token \<Rightarrow> (string \<Rightarrow> row list) \<Rightarrow> jsval \<Rightarrow> scope \<Rightarrow> scope" where
  "test_override Database q thisMock (p, s) = (p, override_getDb q s)"
| "test_override Repository q thisMock (p, s) =
     (p\<lparr>Repository_property := Returns thisMock\<rparr>, s)"
| "test_override Service q thisMock (p, s) = (p\<lparr>Service_property := Returns thisMock\<rparr>, s)"

fun restore :: "token \<Rightarrow> scope \<Rightarrow> scope" where
  "restore Database (p, s) = (p, restore_getDb s)"
| "restore Repository (p, s) = (p\<lparr>Repository_property := Installed\<rparr>, s)"
| "restore Service (p, s) = (p\<lparr>Service_property := Installed\<rparr>, s)"

text \<open>
  The scope of a test that has made its mock, the object number 0, before anything is
  resolved.
\<close>

definition mock_scope :: scope where
  "mock_scope = (installed, snd (alloc (RepositoryObj Undefined) module_load))"

section \<open>Basic facts\<close>

lemma module_load_eq:
  "module_load = \<lparr>heap = [], cached = (\<lambda>c. Undefined), closures = 3, getDb = Memoized\<rparr>"
  by (simp add: module_load_def memoize_def empty_state_def eval_nat_numeral fun_eq_iff)

lemmas wiring_defs =
  Service_getInstance_def new_Service_def Repository_getInstance_def new_Repository_def
  dependencies_getDb_def getDb_memoized_def getPlaceholderForRealDB_def memoized_def alloc_def

lemma memoized_hit:
  "cached s c \<noteq> Undefined \<Longrightarrow> memoized c factory s = (Inr (cached s c), s)"
  by (simp add: memoized_def)

lemma extra_load_eq:
  "undefined_load = \<lparr>heap = [], cached = (\<lambda>c. Undefined), closures = 4, getDb = Memoized\<rparr>"
  "flaky_load = \<lparr>heap = [], cached = (\<lambda>c. Undefined), closures = 4, getDb = Memoized\<rparr>"
  by (simp_all add: undefined_load_def flaky_load_def module_load_eq memoize_def fun_eq_iff)

lemma pair_load_eq:
  "pair_load depth = \<lparr>heap = [], cached = (\<lambda>c. Undefined), closures = 2, getDb = Memoized\<rparr>"
  by (simp add: pair_load_def memoize_def empty_state_def eval_nat_numeral fun_eq_iff)

lemma reentrant_load_eq:
  "reentrant_load throws depth =
     \<lparr>heap = [], cached = (\<lambda>c. Undefined), closures = 4, getDb = Memoized\<rparr>"
  by (simp add: reentrant_load_def module_load_eq memoize_def fun_eq_iff)

lemma mock_scope_eq:
  "mock_scope =
     (installed,
      \<lparr>heap = [RepositoryObj Undefined], cached = (\<lambda>c. Undefined), closures = 3,
       getDb = Memoized\<rparr>)"
  by (simp add: mock_scope_def module_load_eq alloc_def)

lemmas property_defs =
  call_Repository_getInstance_def new_Service_with_def call_Service_getInstance_def
  resolve_in_def

lemma resolve_with_installed: "resolve_with installed t = resolve t"
  by (cases t) (auto simp: fun_eq_iff property_defs installed_def wiring_defs)

lemma deref_Some_defined: "deref s v = Some ob \<Longrightarrow> v \<noteq> Undefined"
  by (auto simp: deref_def)

section \<open>The wiring on the real path and under an override\<close>

text \<open>
  Claim C3. After the module is loaded, \<^verbatim>\<open>Service.getInstance().get(1)\<close> returns the row
  \<^verbatim>\<open>{id: 1, name: 'test'}\<close> of the placeholder database, and so for every other id. The
  resolution has built exactly the graph Service, Repository, Database: three objects, each
  holding the reference of the next, each cached in its closure.
\<close>

theorem real_wiring_scenario:
  "Service_getInstance_get i module_load =
     (Inr (Rec [(''id'', Num 1), (''name'', Str ''test'')]),
      module_load
        \<lparr>heap := [DatabaseObj placeholder_query, RepositoryObj (Ref 0), ServiceObj (Ref 1)],
         cached := (\<lambda>c. Undefined)(0 := Ref 0, 1 := Ref 1, 2 := Ref 2)\<rparr>)"
  by (simp add: module_load_eq Service_getInstance_get_def wiring_defs Service_get_def
      Repository_get_def deref_def first_row_def placeholder_query_def nth_append
      numeral_2_eq_2)

text \<open>
  Claim C2. When the \<^verbatim>\<open>Database\<close> token is overridden with a stub before
  \<^verbatim>\<open>Repository\<close> and \<^verbatim>\<open>Service\<close> have been resolved, resolving \<^verbatim>\<open>Service\<close> yields a
  service whose repository holds the stub, two levels down, and \<^verbatim>\<open>get\<close> answers with the
  first row of the stub's query; the code of \<^verbatim>\<open>Service\<close> and \<^verbatim>\<open>Repository\<close> is the same
  as on the real path. With the stub of the test, \<^verbatim>\<open>get(1)\<close> is
  \<^verbatim>\<open>{id: 2, name: 'mocked'}\<close>.
\<close>

theorem override_propagates:
  assumes "cached s (cell Repository) = Undefined" and "cached s (cell Service) = Undefined"
  shows "\<exists>service repository db s'.
           resolve Service (override_getDb q s) = (Inr service, s') \<and>
           deref s' service = Some (ServiceObj repository) \<and>
           deref s' repository = Some (RepositoryObj db) \<and>
           deref s' db = Some (DatabaseObj q) \<and>
           Service_get s' service i = Inr (first_row (q (select_by_id i)))"
  using assms
  by (simp add: override_getDb_def wiring_defs Service_get_def Repository_get_def deref_def
      nth_append)

theorem override_propagates_witness:
  "cached module_load (cell Repository) = Undefined \<and>
   cached module_load (cell Service) = Undefined \<and>
   fst (Service_getInstance_get 1 (override_getDb mocked_query module_load)) =
     Inr (Rec [(''id'', Num 2), (''name'', Str ''mocked'')])"
  using override_propagates [of module_load mocked_query 1]
  by (auto simp: module_load_eq Service_getInstance_get_def first_row_def mocked_query_def)

section \<open>An empty query result\<close>

text \<open>
  Claim C10. For a repository over any database, \<^verbatim>\<open>Repository.get(id)\<close> returns a value
  and raises nothing: it is the first row of the query's result, and it is \<^verbatim>\<open>undefined\<close>
  exactly when the result is empty. \<^verbatim>\<open>Service.get(id)\<close> delegates and returns the same.
  (The \<^verbatim>\<open>get\<close> of the tsyringe variant has the same body.)
\<close>

theorem get_empty_result:
  assumes "deref s service = Some (ServiceObj repository)"
    and "deref s repository = Some (RepositoryObj db)"
    and "deref s db = Some (DatabaseObj q)"
  shows "Repository_get s repository i = Inr (first_row (q (select_by_id i))) \<and>
         Service_get s service i = Repository_get s repository i \<and>
         (Repository_get s repository i = Inr Undefined) = (q (select_by_id i) = [])"
  using assms
  by (simp add: Service_get_def Repository_get_def first_row_def split: list.splits)

lemma empty_db_state_eq:
  "empty_db_state =
     \<lparr>heap = [DatabaseObj empty_query, RepositoryObj (Ref 0), ServiceObj (Ref 1)],
      cached = (\<lambda>c. Undefined)(1 := Ref 1, 2 := Ref 2),
      closures = 3, getDb = Stub empty_query\<rparr>"
  by (simp add: empty_db_state_def module_load_eq override_getDb_def wiring_defs
      numeral_2_eq_2)

theorem get_empty_result_witness:
  "deref empty_db_state (Ref 2) = Some (ServiceObj (Ref 1)) \<and>
   deref empty_db_state (Ref 1) = Some (RepositoryObj (Ref 0)) \<and>
   deref empty_db_state (Ref 0) = Some (DatabaseObj empty_query) \<and>
   Repository_get empty_db_state (Ref 1) 1 = Inr Undefined \<and>
   Service_get empty_db_state (Ref 2) 1 = Inr Undefined"
  using get_empty_result [of empty_db_state "Ref 2" "Ref 1" "Ref 0" empty_query 1]
  by (simp add: empty_db_state_eq deref_def empty_query_def first_row_def)

section \<open>Singletons\<close>

text \<open>
  Three facts about one resolution, each by going through the resolvers and the state of
  the three variables: a token bound to a memoized resolver resolves to a value that is not
  \<^verbatim>\<open>undefined\<close> and is then in its variable, with at most one object of its class
  constructed; a variable that holds a value is not changed by resolving any token, nor is
  an object of its class constructed; and resolving a token whose variable holds a value
  returns that value and changes nothing.
\<close>

lemma resolve_result:
  "singleton_lifecycle s t \<Longrightarrow> resolve t s = (r, s1) \<Longrightarrow>
   \<exists>v. v \<noteq> Undefined \<and> r = Inr v \<and> cached s1 (cell t) = v \<and> singleton_lifecycle s1 t \<and>
       instances t s1 \<le> instances t s + 1"
  by (cases t; cases "getDb s") (auto simp: wiring_defs instances_def split: if_splits)

lemma resolve_frame:
  "cached s (cell t) \<noteq> Undefined \<Longrightarrow> singleton_lifecycle s t \<Longrightarrow> resolve u s = (r', s') \<Longrightarrow>
   cached s' (cell t) = cached s (cell t) \<and> singleton_lifecycle s' t \<and>
   instances t s' = instances t s"
  by (cases t; cases u; cases "getDb s") (auto simp: wiring_defs instances_def split: if_splits)

lemma resolve_hit:
  "cached s (cell t) \<noteq> Undefined \<Longrightarrow> singleton_lifecycle s t \<Longrightarrow>
   resolve t s = (Inr (cached s (cell t)), s)"
  by (cases t) (auto simp: wiring_defs)

lemma resolve_all_frame:
  "cached s (cell t) \<noteq> Undefined \<Longrightarrow> singleton_lifecycle s t \<Longrightarrow>
   resolve_all ts s = (rs, s') \<Longrightarrow>
   cached s' (cell t) = cached s (cell t) \<and> singleton_lifecycle s' t \<and>
   instances t s' = instances t s"
proof (induction ts arbitrary: s rs s')
  case Nil
  then show ?case by simp
next
  case (Cons u ts)
  obtain r1 s1 where step: "resolve u s = (r1, s1)"
    by (cases "resolve u s")
  obtain rs1 s2 where rest: "resolve_all ts s1 = (rs1, s2)"
    by (cases "resolve_all ts s1")
  from Cons.prems(3) step rest have s2: "s2 = s'"
    by simp
  from resolve_frame [OF Cons.prems(1,2) step]
  have keep: "cached s1 (cell t) = cached s (cell t)" "singleton_lifecycle s1 t"
    "instances t s1 = instances t s"
    by simp_all
  with Cons.prems(1) have "cached s1 (cell t) \<noteq> Undefined"
    by simp
  from Cons.IH [OF this keep(2) rest] keep s2 show ?case
    by simp
qed

text \<open>
  Claim C1. Let a token be bound to a memoized resolver (\<^verbatim>\<open>Repository.getInstance\<close>,
  \<^verbatim>\<open>Service.getInstance\<close>, and \<^verbatim>\<open>dependencies.getDb\<close> as the module installs it).
  Resolve it in any state, then resolve any tokens any number of times, then resolve it
  again: the second resolution returns the value of the first, which is an instance and
  not \<^verbatim>\<open>undefined\<close>, it changes nothing, and over the whole run at most one object of the
  token's class has been constructed.
\<close>

theorem singleton_identity:
  assumes "singleton_lifecycle s t"
    and "resolve t s = (r, s1)"
    and "resolve_all ts s1 = (rs, s2)"
  shows "\<exists>v. v \<noteq> Undefined \<and> r = Inr v \<and> resolve t s2 = (Inr v, s2) \<and>
             instances t s2 \<le> instances t s + 1"
proof -
  from resolve_result [OF assms(1,2)] obtain v where
    v: "v \<noteq> Undefined" "r = Inr v" "cached s1 (cell t) = v" "singleton_lifecycle s1 t"
       "instances t s1 \<le> instances t s + 1"
    by blast
  from v(1,3) have c1: "cached s1 (cell t) \<noteq> Undefined"
    by simp
  from resolve_all_frame [OF c1 v(4) assms(3)]
  have keep: "cached s2 (cell t) = v" "singleton_lifecycle s2 t"
    "instances t s2 = instances t s1"
    using v(3) by simp_all
  from keep(1) v(1) have "cached s2 (cell t) \<noteq> Undefined"
    by simp
  from resolve_hit [OF this keep(2)] keep(1) have "resolve t s2 = (Inr v, s2)"
    by simp
  with v keep show ?thesis
    by auto
qed

theorem singleton_identity_witness:
  "singleton_lifecycle module_load Service \<and>
   resolve Service module_load = (Inr (Ref 2), snd (resolve Service module_load)) \<and>
   resolve_all [Database, Repository, Service] (snd (resolve Service module_load)) =
     ([Inr (Ref 0), Inr (Ref 1), Inr (Ref 2)], snd (resolve Service module_load)) \<and>
   resolve Service (snd (resolve Service module_load)) =
     (Inr (Ref 2), snd (resolve Service module_load)) \<and>
   instances Service (snd (resolve Service module_load)) = 1"
  using singleton_identity [of module_load Service "Inr (Ref 2)"
      "snd (resolve Service module_load)" "[Database, Repository, Service]"
      "[Inr (Ref 0), Inr (Ref 1), Inr (Ref 2)]" "snd (resolve Service module_load)"]
  by (simp add: module_load_eq wiring_defs instances_def)

section \<open>The override is module-wide\<close>

text \<open>
  Claim C4, as stated, asks that after an override of a token the root scope still resolves
  the token to the original instance. The file has one scope, the module's own: the
  override is an assignment to \<^verbatim>\<open>dependencies.getDb\<close>, and every resolution after it
  runs in the state it leaves. So on the loaded module, with the database resolved to the
  object number 0, the override of the mocking test makes the next resolution of
  \<^verbatim>\<open>Database\<close> return the new object number 1, not the original.
\<close>

theorem override_isolation_counterexample:
  "fst (resolve Database module_load) = Inr (Ref 0) \<and>
   fst (resolve Database
         (override_getDb mocked_query (snd (resolve Database module_load)))) = Inr (Ref 1) \<and>
   fst (resolve Database (override_getDb mocked_query (snd (resolve Database module_load))))
     \<noteq> fst (resolve Database module_load)"
  by (simp add: module_load_eq override_getDb_def wiring_defs)

lemma installed_resolution_cached:
  "installed_for (p, s) t \<Longrightarrow> resolve_with p t s = (Inr original, s1) \<Longrightarrow>
   original \<noteq> Undefined \<Longrightarrow> cached s1 (cell t) = original \<and> getDb s1 = getDb s"
  by (cases t; cases "getDb s"; cases "Repository_property p")
     (auto simp: property_defs wiring_defs split: if_splits)

text \<open>
  Claim C4, amended. The module has one scope and no child scope. For every token,
  \<^verbatim>\<open>Database\<close>, \<^verbatim>\<open>Repository\<close> or \<^verbatim>\<open>Service\<close>, that has been resolved to an
  instance: overriding it the way the tests do writes the token's property and nothing
  else, so the heap and the variable of every closure are as before; resolving the token
  afterwards returns the replacement (a new object with the stub's \<^verbatim>\<open>query\<close> for the
  database, the test's mock for a class) and not the original instance, for every caller;
  and the original instance is still cached, so it is what the token resolves to again
  once the installed resolver is put back.
\<close>

theorem override_is_module_wide:
  assumes "installed_for sc t"
    and "resolve_in t sc = (Inr original, sc1)"
    and "deref (snd sc1) original = Some ob"
    and "thisMock \<noteq> original"
  shows "heap (snd (test_override t q thisMock sc1)) = heap (snd sc1) \<and>
         cached (snd (test_override t q thisMock sc1)) = cached (snd sc1) \<and>
         (\<exists>r sc2. resolve_in t (test_override t q thisMock sc1) = (Inr r, sc2) \<and>
                  r \<noteq> original \<and>
                  (case t of
                     Database \<Rightarrow> deref (snd sc2) r = Some (DatabaseObj q)
                   | _ \<Rightarrow> r = thisMock) \<and>
                  resolve_in t (restore t sc2) = (Inr original, restore t sc2))"
proof -
  obtain p s where sc: "sc = (p, s)"
    by (cases sc)
  obtain p1 s1 where sc1: "sc1 = (p1, s1)"
    by (cases sc1)
  from assms(2) sc sc1 have p1: "p1 = p" and res: "resolve_with p t s = (Inr original, s1)"
    by (auto simp: resolve_in_def split: prod.splits)
  from assms(3) sc1 have live: "deref s1 original = Some ob"
    by simp
  then have defined: "original \<noteq> Undefined"
    by (rule deref_Some_defined)
  from assms(1) sc have "installed_for (p, s) t"
    by simp
  from installed_resolution_cached [OF this res defined]
  have hit: "cached s1 (cell t) = original" and slot: "getDb s1 = getDb s"
    by simp_all
  show ?thesis
  proof (cases t)
    case Database
    let ?r = "Ref (length (heap s1))"
    let ?s2 = "s1\<lparr>getDb := Stub q, heap := heap s1 @ [DatabaseObj q]\<rparr>"
    from live have fresh: "?r \<noteq> original"
      by (auto simp: deref_def split: jsval.splits if_splits)
    have step: "resolve_in t (test_override t q thisMock sc1) = (Inr ?r, (p, ?s2))"
      using Database sc1 p1
      by (simp add: resolve_in_def override_getDb_def dependencies_getDb_def alloc_def)
    have stub: "deref ?s2 ?r = Some (DatabaseObj q)"
      by (simp add: deref_def)
    have again: "resolve_in t (restore t (p, ?s2)) = (Inr original, restore t (p, ?s2))"
      using Database hit defined
      by (simp add: resolve_in_def restore_getDb_def dependencies_getDb_def getDb_memoized_def
          memoized_def)
    from step fresh stub again Database
    have "\<exists>r sc2. resolve_in t (test_override t q thisMock sc1) = (Inr r, sc2) \<and>
                  r \<noteq> original \<and>
                  (case t of
                     Database \<Rightarrow> deref (snd sc2) r = Some (DatabaseObj q)
                   | _ \<Rightarrow> r = thisMock) \<and>
                  resolve_in t (restore t sc2) = (Inr original, restore t sc2)"
      by (intro exI [of _ ?r] exI [of _ "(p, ?s2)"]) simp
    with Database sc1 show ?thesis
      by (simp add: override_getDb_def)
  next
    case Repository
    let ?sc2 = "(p\<lparr>Repository_property := Returns thisMock\<rparr>, s1)"
    have step: "resolve_in t (test_override t q thisMock sc1) = (Inr thisMock, ?sc2)"
      using Repository sc1 p1
      by (simp add: resolve_in_def call_Repository_getInstance_def)
    have again: "resolve_in t (restore t ?sc2) = (Inr original, restore t ?sc2)"
      using Repository hit defined
      by (simp add: resolve_in_def call_Repository_getInstance_def Repository_getInstance_def
          memoized_def)
    from step again Repository assms(4)
    have "\<exists>r sc2. resolve_in t (test_override t q thisMock sc1) = (Inr r, sc2) \<and>
                  r \<noteq> original \<and>
                  (case t of
                     Database \<Rightarrow> deref (snd sc2) r = Some (DatabaseObj q)
                   | _ \<Rightarrow> r = thisMock) \<and>
                  resolve_in t (restore t sc2) = (Inr original, restore t sc2)"
      by (intro exI [of _ thisMock] exI [of _ ?sc2]) simp
    with Repository sc1 show ?thesis
      by simp
  next
    case Service
    let ?sc2 = "(p\<lparr>Service_property := Returns thisMock\<rparr>, s1)"
    have step: "resolve_in t (test_override t q thisMock sc1) = (Inr thisMock, ?sc2)"
      using Service sc1 p1
      by (simp add: resolve_in_def call_Service_getInstance_def)
    have again: "resolve_in t (restore t ?sc2) = (Inr original, restore t ?sc2)"
      using Service hit defined
      by (simp add: resolve_in_def call_Service_getInstance_def memoized_def)
    from step again Service assms(4)
    have "\<exists>r sc2. resolve_in t (test_override t q thisMock sc1) = (Inr r, sc2) \<and>
                  r \<noteq> original \<and>
                  (case t of
                     Database \<Rightarrow> deref (snd sc2) r = Some (DatabaseObj q)
                   | _ \<Rightarrow> r = thisMock) \<and>
                  resolve_in t (restore t sc2) = (Inr original, restore t sc2)"
      by (intro exI [of _ thisMock] exI [of _ ?sc2]) simp
    with Service sc1 show ?thesis
      by simp
  qed
qed

theorem override_is_module_wide_witness:
  "installed_for mock_scope Repository \<and>
   resolve_in Repository mock_scope = (Inr (Ref 2), snd (resolve_in Repository mock_scope)) \<and>
   deref (snd (snd (resolve_in Repository mock_scope))) (Ref 2) =
     Some (RepositoryObj (Ref 1)) \<and>
   Ref 0 \<noteq> Ref 2 \<and>
   fst (resolve_in Repository
         (test_override Repository mocked_query (Ref 0)
            (snd (resolve_in Repository mock_scope)))) = Inr (Ref 0) \<and>
   fst (resolve_in Repository
         (restore Repository (test_override Repository mocked_query (Ref 0)
            (snd (resolve_in Repository mock_scope))))) = Inr (Ref 2)"
  using override_is_module_wide [of mock_scope Repository "Ref 2"
      "snd (resolve_in Repository mock_scope)" "RepositoryObj (Ref 1)" "Ref 0" mocked_query]
  by (simp add: mock_scope_eq installed_def property_defs wiring_defs deref_def)

section \<open>What memoize does and does not do\<close>

text \<open>
  Claim C7. Creating a resolver with \<^verbatim>\<open>memoize(factory)\<close> does not call the factory and
  constructs nothing: the state after the call has the same heap and the same property
  \<^verbatim>\<open>dependencies.getDb\<close>, the new closure's variable is \<^verbatim>\<open>undefined\<close>, and the state is
  the same whatever the factory is. After the module is loaded the heap is empty and every
  variable is \<^verbatim>\<open>undefined\<close>; an object of a token's class exists only once the token
  has been resolved.
\<close>

theorem registration_is_lazy:
  "fst (memoize factory s) = memoized (closures s) factory \<and>
   heap (snd (memoize factory s)) = heap s \<and>
   getDb (snd (memoize factory s)) = getDb s \<and>
   cached (snd (memoize factory s)) = (cached s)(closures s := Undefined) \<and>
   snd (memoize factory s) = snd (memoize factory' s) \<and>
   heap module_load = [] \<and>
   cached module_load = (\<lambda>c. Undefined) \<and>
   instances t module_load = 0 \<and>
   instances t (snd (resolve t module_load)) = 1"
  by (cases t) (simp_all add: memoize_def module_load_eq instances_def wiring_defs)

subsection \<open>The count and the closure\<close>

lemma memoized_runs_erasure:
  "fst (memoized_runs c factory s) = memoized c (\<lambda>s'. fst (factory s')) s"
  by (auto simp: memoized_runs_def memoized_def split: prod.splits sum.splits)

lemma memoized_runs_hit:
  "cached s c \<noteq> Undefined \<Longrightarrow> memoized_runs c factory s = ((Inr (cached s c), s), 0)"
  by (simp add: memoized_runs_def)

lemma runs_hit: "cached s c \<noteq> Undefined \<Longrightarrow> runs n c factory s = 0"
  by (induction n) (simp_all add: memoized_runs_hit)

lemma calls_hit:
  "cached s c \<noteq> Undefined \<Longrightarrow>
   calls n (memoized c factory) s = (replicate n (Inr (cached s c)), s)"
  by (induction n) (simp_all add: memoized_hit)

subsection \<open>A factory that throws\<close>

text \<open>
  Claim C6, as stated, asks that after a factory has raised the cache is as before and the
  next resolution runs the factory again. A factory can resolve its own token before it
  raises: the nested resolution finds \<^verbatim>\<open>cached\<close> undefined, runs the factory a second
  time and caches that run's value. So with the factory above that throws \<^verbatim>\<open>'boom'\<close>:
  nothing is cached before, the resolution fails with \<^verbatim>\<open>'boom'\<close>, \<^verbatim>\<open>cached\<close> then holds
  the object number 1, and the next resolution returns it with no run of the factory.
\<close>

theorem failed_resolution_counterexample:
  "cached (reentrant_load True 7) 3 = Undefined \<and>
   memoized 3 (\<lambda>s. fst (reentrant_factory True 3 7 s)) (reentrant_load True 7) =
     (Inl (Thrown (Str ''boom'')),
      \<lparr>heap = [ServiceObj Undefined, ServiceObj Undefined],
       cached = (\<lambda>c. Undefined)(3 := Ref 1), closures = 4, getDb = Memoized\<rparr>) \<and>
   reentrant_getInstance True 3 8
     \<lparr>heap = [ServiceObj Undefined, ServiceObj Undefined],
      cached = (\<lambda>c. Undefined)(3 := Ref 1), closures = 4, getDb = Memoized\<rparr> =
     ((Inr (Ref 1),
       \<lparr>heap = [ServiceObj Undefined, ServiceObj Undefined],
        cached = (\<lambda>c. Undefined)(3 := Ref 1), closures = 4, getDb = Memoized\<rparr>), 0)"
  by (simp add: reentrant_load_eq eval_nat_numeral memoized_runs_def memoized_def alloc_def)

text \<open>
  Claim C6, amended. When the factory of a resolver that has nothing cached raises, the
  resolver raises the same exception and caches nothing itself: the state is exactly the
  one the factory left, and the factory has been run once more than the runs it caused
  itself. If \<^verbatim>\<open>cached\<close> is then still undefined, as it is unless the factory resolved
  its own token while it ran and that nested resolution cached a value, the next
  resolution runs the factory again, and returns and caches its value if it now returns
  one. If the factory did cache a value that way before it raised, the next resolution
  returns that value and does not run the factory.
\<close>

theorem failed_resolution_not_cached:
  assumes "cached s c = Undefined" and "factory s = ((Inl e, s1), k)"
  shows "memoized c (\<lambda>s'. fst (factory s')) s = (Inl e, s1) \<and>
         memoized_runs c factory s = ((Inl e, s1), Suc k) \<and>
         (if cached s1 c = Undefined
          then memoized_runs c factory s1 =
                 (case factory s1 of
                    ((Inl e', s2), k') \<Rightarrow> ((Inl e', s2), Suc k')
                  | ((Inr v, s2), k') \<Rightarrow>
                      ((Inr v, s2\<lparr>cached := (cached s2)(c := v)\<rparr>), Suc k'))
          else memoized_runs c factory s1 = ((Inr (cached s1 c), s1), 0))"
  using assms by (simp add: memoized_def memoized_runs_def)

theorem failed_resolution_not_cached_witness:
  "cached flaky_load 3 = Undefined \<and>
   plain flaky_factory flaky_load =
     ((Inl (Thrown (Str ''not ready'')),
       flaky_load\<lparr>heap := [DatabaseObj placeholder_query]\<rparr>), 0) \<and>
   memoized 3 flaky_factory flaky_load =
     (Inl (Thrown (Str ''not ready'')), flaky_load\<lparr>heap := [DatabaseObj placeholder_query]\<rparr>) \<and>
   cached (flaky_load\<lparr>heap := [DatabaseObj placeholder_query]\<rparr>) 3 = Undefined \<and>
   memoized_runs 3 (plain flaky_factory)
     (flaky_load\<lparr>heap := [DatabaseObj placeholder_query]\<rparr>) =
     ((Inr (Ref 0),
       flaky_load\<lparr>heap := [DatabaseObj placeholder_query],
                  cached := (\<lambda>c. Undefined)(3 := Ref 0)\<rparr>), 1)"
  using failed_resolution_not_cached [of flaky_load 3 "plain flaky_factory"
      "Thrown (Str ''not ready'')" "flaky_load\<lparr>heap := [DatabaseObj placeholder_query]\<rparr>" 0]
  by (simp add: extra_load_eq flaky_factory_def plain_def memoized_def)

subsection \<open>A factory that returns undefined, and one that does not\<close>

lemma runs_undefined:
  assumes "\<forall>s. \<exists>s' k. F s = ((Inr Undefined, s'), k)"
  shows "cached s c = Undefined \<Longrightarrow> n \<le> runs n c F s"
proof (induction n arbitrary: s)
  case 0
  then show ?case by simp
next
  case (Suc n)
  from assms obtain s' k where F: "F s = ((Inr Undefined, s'), k)"
    by blast
  let ?s1 = "s'\<lparr>cached := (cached s')(c := Undefined)\<rparr>"
  from Suc.prems F have m: "memoized_runs c F s = ((Inr Undefined, ?s1), Suc k)"
    by (simp add: memoized_runs_def)
  have "n \<le> runs n c F ?s1"
    by (rule Suc.IH) simp
  with m show ?case
    by simp
qed

lemma runs_defined:
  assumes "\<forall>s. \<exists>v s' k. G s = ((Inr v, s'), k) \<and> v \<noteq> Undefined"
    and "cached s c = Undefined"
  shows "runs (Suc n) c G s = Suc (snd (G s)) \<and>
         (\<exists>v. fst (calls (Suc n) (memoized c (\<lambda>s'. fst (G s'))) s) =
                replicate (Suc n) (Inr v)) \<and>
         snd (calls (Suc n) (memoized c (\<lambda>s'. fst (G s'))) s) =
           snd (memoized c (\<lambda>s'. fst (G s')) s)"
proof -
  from assms(1) obtain v s' k where G: "G s = ((Inr v, s'), k)" "v \<noteq> Undefined"
    by blast
  let ?s1 = "s'\<lparr>cached := (cached s')(c := v)\<rparr>"
  let ?g = "\<lambda>s'. fst (G s')"
  from assms(2) G(1) have m: "memoized c ?g s = (Inr v, ?s1)"
    by (simp add: memoized_def)
  from assms(2) G(1) have mr: "memoized_runs c G s = ((Inr v, ?s1), Suc k)"
    by (simp add: memoized_runs_def)
  from G(2) have hit: "cached ?s1 c \<noteq> Undefined"
    by simp
  from runs_hit [OF hit] have "runs n c G ?s1 = 0" .
  with mr G(1) have count: "runs (Suc n) c G s = Suc (snd (G s))"
    by simp
  from calls_hit [OF hit]
  have later: "calls n (memoized c ?g) ?s1 = (replicate n (Inr v), ?s1)"
    by simp
  with m have "fst (calls (Suc n) (memoized c ?g) s) = replicate (Suc n) (Inr v)"
    and "snd (calls (Suc n) (memoized c ?g) s) = snd (memoized c ?g s)"
    by simp_all
  with count show ?thesis
    by blast
qed

lemma runs_at_most_once:
  assumes "\<forall>s. \<exists>v s' k. G s = ((Inr v, s'), k) \<and> v \<noteq> Undefined"
  shows "runs n c G s \<le> Suc (snd (G s))"
proof (cases "cached s c = Undefined")
  case True
  show ?thesis
  proof (cases n)
    case 0
    then show ?thesis by simp
  next
    case (Suc m)
    with runs_defined [OF assms True, of m] show ?thesis
      by simp
  qed
next
  case False
  then show ?thesis
    by (simp add: runs_hit)
qed

text \<open>
  Claim C9, as stated, asks that a factory whose result is not \<^verbatim>\<open>undefined\<close> is invoked
  at most once across all calls. The factory above that resolves its own token returns an
  object at every run, never \<^verbatim>\<open>undefined\<close>; one call of its resolver, with nothing
  cached, runs it twice and constructs two objects.
\<close>

theorem at_most_once_counterexample:
  "reentrant_getInstance False 3 8 (reentrant_load False 7) =
     ((Inr (Ref 0),
       \<lparr>heap = [ServiceObj Undefined, ServiceObj Undefined],
        cached = (\<lambda>c. Undefined)(3 := Ref 0), closures = 4, getDb = Memoized\<rparr>), 2) \<and>
   memoized 3 (\<lambda>s. fst (reentrant_factory False 3 7 s)) (reentrant_load False 7) =
     (Inr (Ref 0),
      \<lparr>heap = [ServiceObj Undefined, ServiceObj Undefined],
       cached = (\<lambda>c. Undefined)(3 := Ref 0), closures = 4, getDb = Memoized\<rparr>) \<and>
   instances Service
     (snd (fst (reentrant_getInstance False 3 8 (reentrant_load False 7)))) = 2"
  by (simp add: reentrant_load_eq eval_nat_numeral memoized_runs_def memoized_def alloc_def
      instances_def)

text \<open>
  Claim C9, amended. The closure caches what the factory returns unless that is
  \<^verbatim>\<open>undefined\<close>. For a factory \<open>F\<close> that returns \<^verbatim>\<open>undefined\<close>, every call of
  \<^verbatim>\<open>memoize(F)()\<close> runs the factory again: \<open>n\<close> calls make at least \<open>n\<close> runs. For a
  factory \<open>G\<close> whose result is never \<^verbatim>\<open>undefined\<close>, the calls together invoke the factory
  once, whatever their number: the runs are that one and those that this run causes itself
  by resolving its own token, so a factory that does not resolve its own token (\<open>plain g\<close>)
  runs exactly once, and from any state at most once. All the calls return the same value,
  and the calls after the first change nothing. The count is that of the closure of
  \<^verbatim>\<open>memoize\<close>: without the count, \<open>memoized_runs\<close> is \<open>memoized\<close>.
\<close>

theorem memoize_undefined_edge_case:
  assumes "cached s c = Undefined"
    and "\<forall>s. \<exists>s' k. F s = ((Inr Undefined, s'), k)"
    and "\<forall>s. \<exists>v s' k. G s = ((Inr v, s'), k) \<and> v \<noteq> Undefined"
  shows "n \<le> runs n c F s \<and>
         runs (Suc n) c G s = Suc (snd (G s)) \<and>
         runs n c G s0 \<le> Suc (snd (G s0)) \<and>
         snd (plain g s0) = 0 \<and>
         (\<exists>v. fst (calls (Suc n) (memoized c (\<lambda>s'. fst (G s'))) s) =
                replicate (Suc n) (Inr v)) \<and>
         snd (calls (Suc n) (memoized c (\<lambda>s'. fst (G s'))) s) =
           snd (memoized c (\<lambda>s'. fst (G s')) s) \<and>
         fst (memoized_runs c G s0) = memoized c (\<lambda>s'. fst (G s')) s0"
  using runs_undefined [OF assms(2,1)] runs_defined [OF assms(3,1)]
    runs_at_most_once [OF assms(3)] memoized_runs_erasure
  by (simp add: plain_def)

theorem memoize_undefined_edge_case_witness:
  "cached undefined_load 3 = Undefined \<and>
   (\<forall>s. \<exists>s' k. plain undefined_factory s = ((Inr Undefined, s'), k)) \<and>
   (\<forall>s. \<exists>v s' k. plain getPlaceholderForRealDB s = ((Inr v, s'), k) \<and> v \<noteq> Undefined) \<and>
   runs 4 3 (plain undefined_factory) undefined_load = 4 \<and>
   length (heap (snd (calls 4 (memoized 3 undefined_factory) undefined_load))) = 4 \<and>
   runs (Suc 4) 3 (plain getPlaceholderForRealDB) undefined_load = 1 \<and>
   length (heap (snd (calls (Suc 4) (memoized 3 getPlaceholderForRealDB) undefined_load))) = 1"
proof -
  have a: "cached undefined_load 3 = Undefined"
    by (simp add: extra_load_eq)
  have b: "\<forall>s. \<exists>s' k. plain undefined_factory s = ((Inr Undefined, s'), k)"
    by (simp add: undefined_factory_def plain_def)
  have c: "\<forall>s. \<exists>v s' k. plain getPlaceholderForRealDB s = ((Inr v, s'), k) \<and> v \<noteq> Undefined"
    by (simp add: getPlaceholderForRealDB_def alloc_def plain_def)
  have d: "length (heap (snd (calls 4 (memoized 3 undefined_factory) undefined_load))) = 4"
    by (simp add: extra_load_eq eval_nat_numeral memoized_def undefined_factory_def)
  have e: "length (heap (snd (calls (Suc 4)
             (memoized 3 getPlaceholderForRealDB) undefined_load))) = 1"
    by (simp add: extra_load_eq eval_nat_numeral memoized_def getPlaceholderForRealDB_def
        alloc_def)
  have f: "runs 4 3 (plain undefined_factory) undefined_load = 4"
    by (simp add: extra_load_eq eval_nat_numeral memoized_runs_def undefined_factory_def
        plain_def)
  have g: "snd (plain getPlaceholderForRealDB undefined_load) = 0"
    by (simp add: plain_def)
  from memoize_undefined_edge_case [OF a b c, where n = 4] a b c d e f g show ?thesis
    by simp
qed

section \<open>A dependency cycle\<close>

lemma cyclic_overflow:
  "cached s cx = Undefined \<Longrightarrow> cached s cy = Undefined \<Longrightarrow>
   cyclic_getInstance build cx cy depth x s = (Inl RangeError, s) \<and>
   cyclic_new build cx cy depth x s = (Inl RangeError, s)"
proof (induction depth arbitrary: x s rule: less_induct)
  case (less depth)
  show ?case
  proof (cases depth)
    case 0
    then show ?thesis by simp
  next
    case (Suc d)
    from Suc have "d < depth"
      by simp
    from less.IH [OF this less.prems]
    have new_d: "cyclic_new build cx cy d x s = (Inl RangeError, s)"
      and get_d: "cyclic_getInstance build cx cy d (\<not> x) s = (Inl RangeError, s)"
      by simp_all
    from new_d get_d less.prems Suc show ?thesis
      by (simp add: memoized_def)
  qed
qed

text \<open>
  Claim C5, as stated, asks that resolving a token of a cyclic pair fails with
  \<^verbatim>\<open>CircularDependency\<close>. The resolvers of the repository keep no record of the tokens
  under construction: on the module that declares the pair, with 64 nested calls allowed,
  resolving the first class does not end in \<^verbatim>\<open>CircularDependency\<close>.
\<close>

theorem cycle_detection_counterexample:
  "\<not> is_CircularDependency (fst (cyclic_getInstance build_pair 0 1 64 True (pair_load 64)))"
  using cyclic_overflow [of "pair_load 64" 0 1 build_pair 64 True]
  by (simp add: pair_load_eq)

text \<open>
  Claim C5, amended. There is no cycle detection. For two registrations whose
  constructions resolve each other, neither of them cached, resolving either token recurses
  until the call stack is exhausted and fails with the engine's \<^verbatim>\<open>RangeError\<close>,
  whatever the depth the engine allows; no instance, complete or partial, is returned, no
  object is left in the heap and nothing is cached.
\<close>

theorem cyclic_resolution_overflows:
  assumes "cached s cx = Undefined" and "cached s cy = Undefined"
  shows "cyclic_getInstance build cx cy depth x s = (Inl RangeError, s)"
  using cyclic_overflow [OF assms] by simp

theorem cyclic_resolution_overflows_witness:
  "cached (pair_load 1000) 0 = Undefined \<and>
   cached (pair_load 1000) 1 = Undefined \<and>
   cyclic_getInstance build_pair 0 1 1000 False (pair_load 1000) =
     (Inl RangeError, pair_load 1000)"
  using cyclic_resolution_overflows [of "pair_load 1000" 0 1 build_pair 1000 False]
  by (simp add: pair_load_eq)

end
